theory Spec2Isabelle
  imports Complex_Main "HOL-Library.State_Monad"
begin

section \<open>Python numbers and exceptions\<close>

text \<open>
  The fields of a snapshot are Python floats (or ints, where a JSON source sends one). The
  decision rule only compares them, and a comparison of two floats is decided by the
  numbers they denote, so a float is modelled by the number it denotes: a real, one of
  the two infinities, or NaN. Negative zero is the real 0. Every ordered comparison with
  NaN is false, as in IEEE 754 and in Python.
\<close>

datatype pyfloat = Fin real | PosInf | NegInf | NaN

fun pf_lt :: "pyfloat \<Rightarrow> pyfloat \<Rightarrow> bool" where
  "pf_lt NaN y = False"
| "pf_lt x NaN = False"
| "pf_lt (Fin a) (Fin b) = (a < b)"
| "pf_lt (Fin a) PosInf = True"
| "pf_lt (Fin a) NegInf = False"
| "pf_lt PosInf y = False"
| "pf_lt NegInf NegInf = False"
| "pf_lt NegInf y = True"

fun pf_le :: "pyfloat \<Rightarrow> pyfloat \<Rightarrow> bool" where
  "pf_le NaN y = False"
| "pf_le x NaN = False"
| "pf_le (Fin a) (Fin b) = (a \<le> b)"
| "pf_le NegInf y = True"
| "pf_le x PosInf = True"
| "pf_le x y = False"

definition pf_gt :: "pyfloat \<Rightarrow> pyfloat \<Rightarrow> bool" where
  "pf_gt x y = pf_lt y x"

text \<open>An exception instance: its class name and the text \<open>str(exc)\<close> gives.\<close>

datatype pyexc = PyExc (exc_class: string) (exc_str: string)

text \<open>
  The source does arithmetic in three places: \<open>btc / total\<close> and the product with
  \<open>100\<close> in the dominance adapter, and \<open>time.time() - last_message\<close> in the loop.
  Float arithmetic rounds (and \<open>/\<close> raises ZeroDivisionError on a zero divisor, with a
  message that depends on the operand types), so the three operations of the interpreter
  are parameters of the model: it does not say what they compute. A statement that
  involves a difference of clock readings is about the difference as the interpreter
  computes it.
\<close>

record py_arith =
  float_div :: "pyfloat \<Rightarrow> pyfloat \<Rightarrow> pyexc + pyfloat"
  float_mul :: "pyfloat \<Rightarrow> pyfloat \<Rightarrow> pyfloat"
  float_sub :: "real \<Rightarrow> real \<Rightarrow> real"

section \<open>The snapshot\<close>

type_synonym macro_event = "(string \<times> string) list"

record MarketSnapshot =
  eth_price :: pyfloat
  market_cap :: pyfloat
  volume :: pyfloat
  rsi :: pyfloat
  macd :: pyfloat
  funding_rate :: pyfloat
  open_interest :: pyfloat
  btc_dominance :: pyfloat
  fear_greed :: int
  macro_events :: "macro_event list"

text \<open>\<open>MarketSnapshot.__init__\<close>: every field at its neutral default.\<close>

definition MarketSnapshot_init :: MarketSnapshot where
  "MarketSnapshot_init =
     \<lparr>eth_price = Fin 0, market_cap = Fin 0, volume = Fin 0, rsi = Fin 0, macd = Fin 0,
      funding_rate = Fin 0, open_interest = Fin 0, btc_dominance = Fin 0, fear_greed = 0,
      macro_events = []\<rparr>"

section \<open>The source adapters\<close>

text \<open>
  What lies outside the file is a parameter of the model. For each HTTP source the
  environment holds the outcome of the request together with the extraction the adapter
  does on the response: the extracted values, or the exception that was raised on the
  way (by \<open>requests.get\<close>, by \<open>resp.json()\<close>, by a subscript or by a conversion).
  The two indicators of the \<open>ta\<close> library are functions from the closing prices and the
  window lengths to the series they return, or to the exception they raise.

  An exception here is an instance of \<open>Exception\<close>, the class both handlers of the
  source catch. \<open>KeyboardInterrupt\<close> and \<open>SystemExit\<close>, by which the process is stopped
  from outside, are no errors of a source and are not modelled.

  An adapter stores into the snapshot it is given. The model passes the snapshot through
  and returns the updated one, or the exception. When an adapter raises after it has
  stored a first field, the source leaves a half-updated snapshot behind; it is local to
  \<open>gather_data\<close> and is dropped with the exception, so the model does not keep it.
\<close>

record source_env =
  get_eth_market :: "pyexc + pyfloat \<times> pyfloat \<times> pyfloat"
  get_klines :: "pyexc + pyfloat list"
  rsi_indicator :: "pyfloat list \<Rightarrow> nat \<Rightarrow> pyexc + pyfloat list"
  macd_diff_indicator :: "pyfloat list \<Rightarrow> nat \<Rightarrow> nat \<Rightarrow> nat \<Rightarrow> pyexc + pyfloat list"
  get_funding_rate :: "pyexc + pyfloat"
  get_open_interest :: "pyexc + pyfloat"
  get_btc_cap :: "pyexc + pyfloat"
  get_total_cap :: "pyexc + pyfloat"
  get_fear_greed :: "pyexc + int"
  get_macro_events :: "pyexc + macro_event list"

definition fetch_eth_market :: "source_env \<Rightarrow> MarketSnapshot \<Rightarrow> pyexc + MarketSnapshot" where
  "fetch_eth_market env snapshot =
     (case get_eth_market env of
        Inl exc \<Rightarrow> Inl exc
      | Inr (price, cap, vol) \<Rightarrow>
          Inr (snapshot\<lparr>eth_price := price, market_cap := cap, volume := vol\<rparr>))"

text \<open>\<open>series.iloc[-1]\<close>: the last entry; IndexError on an empty series.\<close>

definition iloc_last :: "pyfloat list \<Rightarrow> pyexc + pyfloat" where
  "iloc_last series =
     (if series = [] then Inl (PyExc ''IndexError'' ''single positional indexer is out-of-bounds'')
      else Inr (last series))"

definition fetch_rsi_macd :: "source_env \<Rightarrow> MarketSnapshot \<Rightarrow> pyexc + MarketSnapshot" where
  "fetch_rsi_macd env snapshot =
     (case get_klines env of
        Inl exc \<Rightarrow> Inl exc
      | Inr closes \<Rightarrow>
          (case rsi_indicator env closes 14 of
             Inl exc \<Rightarrow> Inl exc
           | Inr rsi_series \<Rightarrow>
               (case iloc_last rsi_series of
                  Inl exc \<Rightarrow> Inl exc
                | Inr r \<Rightarrow>
                    (case macd_diff_indicator env closes 26 12 9 of
                       Inl exc \<Rightarrow> Inl exc
                     | Inr diff_series \<Rightarrow>
                         (case iloc_last diff_series of
                            Inl exc \<Rightarrow> Inl exc
                          | Inr m \<Rightarrow> Inr (snapshot\<lparr>rsi := r, macd := m\<rparr>))))))"

definition fetch_funding_rate :: "source_env \<Rightarrow> MarketSnapshot \<Rightarrow> pyexc + MarketSnapshot" where
  "fetch_funding_rate env snapshot =
     (case get_funding_rate env of
        Inl exc \<Rightarrow> Inl exc
      | Inr rate \<Rightarrow> Inr (snapshot\<lparr>funding_rate := rate\<rparr>))"

definition fetch_open_interest :: "source_env \<Rightarrow> MarketSnapshot \<Rightarrow> pyexc + MarketSnapshot" where
  "fetch_open_interest env snapshot =
     (case get_open_interest env of
        Inl exc \<Rightarrow> Inl exc
      | Inr oi \<Rightarrow> Inr (snapshot\<lparr>open_interest := oi\<rparr>))"

definition fetch_btc_dominance ::
  "py_arith \<Rightarrow> source_env \<Rightarrow> MarketSnapshot \<Rightarrow> pyexc + MarketSnapshot" where
  "fetch_btc_dominance ops env snapshot =
     (case get_btc_cap env of
        Inl exc \<Rightarrow> Inl exc
      | Inr btc \<Rightarrow>
          (case get_total_cap env of
             Inl exc \<Rightarrow> Inl exc
           | Inr total_cap \<Rightarrow>
               (case float_div ops btc total_cap of
                  Inl exc \<Rightarrow> Inl exc
                | Inr ratio \<Rightarrow>
                    Inr (snapshot\<lparr>btc_dominance := float_mul ops ratio (Fin 100)\<rparr>))))"

definition fetch_fear_greed :: "source_env \<Rightarrow> MarketSnapshot \<Rightarrow> pyexc + MarketSnapshot" where
  "fetch_fear_greed env snapshot =
     (case get_fear_greed env of
        Inl exc \<Rightarrow> Inl exc
      | Inr v \<Rightarrow> Inr (snapshot\<lparr>fear_greed := v\<rparr>))"

text \<open>The one adapter with a handler of its own: \<open>except Exception\<close> stores the empty list.\<close>

definition fetch_macro_events :: "source_env \<Rightarrow> MarketSnapshot \<Rightarrow> pyexc + MarketSnapshot" where
  "fetch_macro_events env snapshot =
     (case get_macro_events env of
        Inr events \<Rightarrow> Inr (snapshot\<lparr>macro_events := events\<rparr>)
      | Inl exc \<Rightarrow> Inr (snapshot\<lparr>macro_events := []\<rparr>))"

section \<open>The aggregator\<close>

text \<open>Statements in sequence: the first exception ends the sequence.\<close>

definition and_then ::
  "pyexc + MarketSnapshot \<Rightarrow> (MarketSnapshot \<Rightarrow> pyexc + MarketSnapshot) \<Rightarrow> pyexc + MarketSnapshot" where
  "and_then r step = (case r of Inl exc \<Rightarrow> Inl exc | Inr snapshot \<Rightarrow> step snapshot)"

definition gather_data :: "py_arith \<Rightarrow> source_env \<Rightarrow> pyexc + MarketSnapshot" where
  "gather_data ops env =
     foldl and_then (Inr MarketSnapshot_init)
       [fetch_eth_market env,
        fetch_rsi_macd env,
        fetch_funding_rate env,
        fetch_open_interest env,
        fetch_btc_dominance ops env,
        fetch_fear_greed env,
        fetch_macro_events env]"

section \<open>The decision engine\<close>

text \<open>\<open>buy\<close> and \<open>sell\<close> are the two local variables of \<open>evaluate\<close>.\<close>

definition buy :: "MarketSnapshot \<Rightarrow> pyfloat option \<Rightarrow> bool" where
  "buy snapshot last_oi =
     (pf_gt (rsi snapshot) (Fin 60)
      \<and> pf_gt (macd snapshot) (Fin 0)
      \<and> pf_gt (eth_price snapshot) (Fin 3550)
      \<and> pf_lt (btc_dominance snapshot) (Fin 59.5)
      \<and> pf_le (funding_rate snapshot) (Fin 0)
      \<and> (case last_oi of None \<Rightarrow> False | Some oi \<Rightarrow> pf_gt (open_interest snapshot) oi)
      \<and> fear_greed snapshot > 60)"

definition sell :: "MarketSnapshot \<Rightarrow> pyfloat option \<Rightarrow> bool" where
  "sell snapshot last_oi =
     (pf_lt (rsi snapshot) (Fin 40)
      \<and> pf_lt (macd snapshot) (Fin 0)
      \<and> pf_lt (eth_price snapshot) (Fin 3550)
      \<and> pf_gt (btc_dominance snapshot) (Fin 59.5)
      \<and> pf_gt (funding_rate snapshot) (Fin 0)
      \<and> (case last_oi of None \<Rightarrow> False | Some oi \<Rightarrow> pf_lt (open_interest snapshot) oi)
      \<and> fear_greed snapshot < 40)"

definition evaluate :: "MarketSnapshot \<Rightarrow> pyfloat option \<Rightarrow> string option" where
  "evaluate snapshot last_oi =
     (if buy snapshot last_oi then Some ''GO LONG''
      else if sell snapshot last_oi then Some ''SELL''
      else None)"

text \<open>
  The same function as the interpreter runs it: a computation over the snapshot object,
  made of attribute reads in the order of the source, where \<open>and\<close> evaluates its right
  operand only when the left one is true.
\<close>

definition attr :: "(MarketSnapshot \<Rightarrow> 'a) \<Rightarrow> ('a \<Rightarrow> bool) \<Rightarrow> (MarketSnapshot, bool) state" where
  "attr field test = State (\<lambda>snapshot. (test (field snapshot), snapshot))"

definition py_and :: "('s, bool) state \<Rightarrow> ('s, bool) state \<Rightarrow> ('s, bool) state" where
  "py_and a b = do { x \<leftarrow> a; if x then b else State_Monad.return False }"

fun all_of :: "('s, bool) state list \<Rightarrow> ('s, bool) state" where
  "all_of [] = State_Monad.return True"
| "all_of [c] = c"
| "all_of (c # cs) = py_and c (all_of cs)"

definition evaluate_reads :: "pyfloat option \<Rightarrow> (MarketSnapshot, string option) state" where
  "evaluate_reads last_oi = do {
     b \<leftarrow> all_of
       [attr rsi (\<lambda>x. pf_gt x (Fin 60)),
        attr macd (\<lambda>x. pf_gt x (Fin 0)),
        attr eth_price (\<lambda>x. pf_gt x (Fin 3550)),
        attr btc_dominance (\<lambda>x. pf_lt x (Fin 59.5)),
        attr funding_rate (\<lambda>x. pf_le x (Fin 0)),
        (case last_oi of
           None \<Rightarrow> State_Monad.return False
         | Some oi \<Rightarrow> attr open_interest (\<lambda>x. pf_gt x oi)),
        attr fear_greed (\<lambda>x. x > 60)];
     s \<leftarrow> all_of
       [attr rsi (\<lambda>x. pf_lt x (Fin 40)),
        attr macd (\<lambda>x. pf_lt x (Fin 0)),
        attr eth_price (\<lambda>x. pf_lt x (Fin 3550)),
        attr btc_dominance (\<lambda>x. pf_gt x (Fin 59.5)),
        attr funding_rate (\<lambda>x. pf_gt x (Fin 0)),
        (case last_oi of
           None \<Rightarrow> State_Monad.return False
         | Some oi \<Rightarrow> attr open_interest (\<lambda>x. pf_lt x oi)),
        attr fear_greed (\<lambda>x. x < 40)];
     State_Monad.return (if b then Some ''GO LONG'' else if s then Some ''SELL'' else None)
   }"

section \<open>The monitor loop\<close>

text \<open>
  The two variables of \<open>main\<close> that live across cycles. \<open>time.time()\<close> returns a finite
  float, which the model reads as the real it denotes.
\<close>

record loop_state =
  last_oi :: "pyfloat option"
  last_message :: real

text \<open>
  One cycle meets the sources once and reads the clock at most twice: \<open>now1\<close> is what the
  first call of \<open>time.time()\<close> in the cycle returns, \<open>now2\<close> what the second returns.
\<close>

record cycle_env =
  sources :: source_env
  now1 :: real
  now2 :: real

text \<open>What the process does that can be seen from outside: a printed line, a sleep.\<close>

datatype event = Print string | Sleep int

text \<open>\<open>if signal:\<close> is Python truth: \<open>None\<close> and the empty string are false.\<close>

definition truthy :: "string option \<Rightarrow> bool" where
  "truthy signal = (case signal of None \<Rightarrow> False | Some line \<Rightarrow> line \<noteq> [])"

text \<open>The \<open>try\<close> statement of the loop body, with its handler.\<close>

definition cycle_body ::
  "py_arith \<Rightarrow> cycle_env \<Rightarrow> loop_state \<Rightarrow> loop_state \<times> event list" where
  "cycle_body ops env st =
     (case gather_data ops (sources env) of
        Inl exc \<Rightarrow> (st, [Print (''Error: '' @ exc_str exc)])
      | Inr snap \<Rightarrow>
          (let signal = evaluate snap (last_oi st) in
           if truthy signal then
             (\<lparr>last_oi = Some (open_interest snap), last_message = now1 env\<rparr>,
              [Print (the signal)])
           else if float_sub ops (now1 env) (last_message st) \<ge> 3600 then
             (\<lparr>last_oi = Some (open_interest snap), last_message = now2 env\<rparr>,
              [Print ''I'm still checking''])
           else
             (\<lparr>last_oi = Some (open_interest snap), last_message = last_message st\<rparr>, [])))"

text \<open>
  The \<open>while True\<close> loop, run on the cycles the world supplies. With \<open>run_forever\<close> the
  loop has no exit, so a run is observed on a finite prefix of its cycles: the result is
  the events so far, the state reached, and whether \<open>main\<close> has returned or is still
  looping (at the head of the next cycle).
\<close>

datatype run_status = Returned | Looping

fun main_loop ::
  "py_arith \<Rightarrow> bool \<Rightarrow> loop_state \<Rightarrow> cycle_env list \<Rightarrow> event list \<times> loop_state \<times> run_status" where
  "main_loop ops run_forever st [] = ([], st, Looping)"
| "main_loop ops run_forever st (env # envs) =
     (case cycle_body ops env st of
        (st', out) \<Rightarrow>
          if \<not> run_forever then (out, st', Returned)
          else
            (case main_loop ops run_forever st' envs of
               (evs, st'', status) \<Rightarrow> (out @ [Sleep 300] @ evs, st'', status)))"

definition main ::
  "py_arith \<Rightarrow> bool \<Rightarrow> cycle_env list \<Rightarrow> event list \<times> loop_state \<times> run_status" where
  "main ops run_forever envs =
     main_loop ops run_forever \<lparr>last_oi = None, last_message = 0\<rparr> envs"

text \<open>
  Notions for statements about a run. The history of a run lists its cycles in order,
  each with what it printed; \<open>run_cycles\<close> runs the loop body over the cycles and
  returns the state reached with the history.
\<close>

fun run_cycles ::
  "py_arith \<Rightarrow> loop_state \<Rightarrow> cycle_env list \<Rightarrow> loop_state \<times> (cycle_env \<times> event list) list" where
  "run_cycles ops st [] = (st, [])"
| "run_cycles ops st (env # envs) =
     (case cycle_body ops env st of
        (st', out) \<Rightarrow>
          (case run_cycles ops st' envs of
             (st'', hist) \<Rightarrow> (st'', (env, out) # hist)))"

text \<open>
  The time of an output is the clock reading taken right after the line was printed:
  the first reading of the cycle for a signal, the second for a heartbeat. A cycle that
  printed an error diagnostic, or nothing, has no such time. The time of the last
  output of a history is that of its last signal or heartbeat, and \<open>t\<close> when it has
  none.
\<close>

definition stamp :: "cycle_env \<Rightarrow> event list \<Rightarrow> real option" where
  "stamp env out =
     (if out = [Print ''GO LONG''] \<or> out = [Print ''SELL''] then Some (now1 env)
      else if out = [Print ''I'm still checking''] then Some (now2 env)
      else None)"

fun last_output_time :: "real \<Rightarrow> (cycle_env \<times> event list) list \<Rightarrow> real" where
  "last_output_time t [] = t"
| "last_output_time t ((env, out) # hist) =
     last_output_time (case stamp env out of None \<Rightarrow> t | Some t' \<Rightarrow> t') hist"

text \<open>
  A span of cycles produces no signal when every cycle gathers its snapshot and
  \<open>evaluate\<close> returns nothing printable for it; the baseline each cycle is evaluated
  against is the open interest of the cycle before. The cycles of a span are less than
  the idle interval apart when the clock reading of each cycle is, as the interpreter
  computes the difference, less than 3600 after the second reading of every earlier
  cycle of the span.
\<close>

fun no_signal_span :: "py_arith \<Rightarrow> pyfloat option \<Rightarrow> cycle_env list \<Rightarrow> bool" where
  "no_signal_span ops prev [] = True"
| "no_signal_span ops prev (env # envs) =
     (case gather_data ops (sources env) of
        Inl exc \<Rightarrow> False
      | Inr snap \<Rightarrow>
          \<not> truthy (evaluate snap prev)
          \<and> no_signal_span ops (Some (open_interest snap)) envs)"

fun within_idle :: "py_arith \<Rightarrow> cycle_env list \<Rightarrow> bool" where
  "within_idle ops [] = True"
| "within_idle ops (env # envs) =
     (list_all (\<lambda>e. float_sub ops (now1 e) (now2 env) < 3600) envs \<and> within_idle ops envs)"

text \<open>
  The events of \<open>n\<close> cycles in which nothing is printed but one heartbeat, in cycle \<open>k\<close>
  (counted from 0; no heartbeat at all when \<open>k\<close> is not below \<open>n\<close>), each cycle followed
  by its sleep.
\<close>

definition heartbeat_trace :: "nat \<Rightarrow> nat \<Rightarrow> event list" where
  "heartbeat_trace k n =
     concat (map (\<lambda>i. (if i = k then [Print ''I'm still checking''] else []) @ [Sleep 300]) [0..<n])"

section \<open>The relative-strength index\<close>

text \<open>
  The source obtains the RSI from \<open>RSIIndicator(close, window=14).rsi()\<close> of the
  third-party \<open>ta\<close> library, which is not under src/. The definitions of this section
  are modelled from the spec (4.1), which describes it as the relative-strength index
  with Wilder's smoothing: the smoothed average of the up-moves over the smoothed
  average of the down-moves, brought to the scale from 0 to 100 and read at the last
  position. Prices are reals; the rounding of float arithmetic is not modelled.
\<close>

text \<open>
  Modelled from the spec: the moves of a price series, each closing price minus the one
  before it. The first price has no move.
\<close>

definition moves :: "real list \<Rightarrow> real list" where
  "moves closes = map (\<lambda>(prev, cur). cur - prev) (zip closes (tl closes))"

text \<open>Modelled from the spec: the up-move of a difference, 0 when the price did not rise.\<close>

definition up_move :: "real \<Rightarrow> real" where
  "up_move d = (if d > 0 then d else 0)"

text \<open>Modelled from the spec: the down-move of a difference, 0 when the price did not fall.\<close>

definition down_move :: "real \<Rightarrow> real" where
  "down_move d = (if d < 0 then - d else 0)"

text \<open>
  Modelled from the spec: Wilder's smoothing with window \<open>n\<close>, which replaces the average
  \<open>avg\<close> by \<open>(avg * (n - 1) + x) / n\<close> at each value \<open>x\<close> of the series.
\<close>

fun wilder :: "nat \<Rightarrow> real \<Rightarrow> real list \<Rightarrow> real" where
  "wilder n avg [] = avg"
| "wilder n avg (x # xs) = wilder n ((avg * (real n - 1) + x) / real n) xs"

text \<open>
  Modelled from the spec: the RSI with window \<open>n\<close> at the last position of the series.
  Both averages start from 0 at the first price. Where the average down-move is 0 the
  index is at the top of its scale.
\<close>

definition rsi_last :: "nat \<Rightarrow> real list \<Rightarrow> real" where
  "rsi_last n closes =
     (let avg_up = wilder n 0 (map up_move (moves closes));
          avg_down = wilder n 0 (map down_move (moves closes))
      in if avg_down = 0 then 100 else 100 - 100 / (1 + avg_up / avg_down))"

section \<open>Sample inputs\<close>

text \<open>
  A world in which every source answers and the candle source has only three closes.
  While the window of an indicator has not filled, the \<open>ta\<close> library returns a series
  of the length of its input that holds NaN at each position, and raises nothing. Every
  number of this world is a float (a whole number, or a binary fraction).
\<close>

definition nan_series :: "pyfloat list \<Rightarrow> pyfloat list" where
  "nan_series closes = map (\<lambda>c. NaN) closes"

definition sample_sources :: source_env where
  "sample_sources =
     \<lparr>get_eth_market = Inr (Fin 3600, Fin 430000000000, Fin 20000000000),
      get_klines = Inr [Fin 100, Fin 101, Fin 102],
      rsi_indicator = (\<lambda>closes window. Inr (nan_series closes)),
      macd_diff_indicator = (\<lambda>closes slow fast sign. Inr (nan_series closes)),
      get_funding_rate = Inr (Fin 0.0001220703125),
      get_open_interest = Inr (Fin 12000),
      get_btc_cap = Inr (Fin 1000000000000),
      get_total_cap = Inr (Fin 2000000000000),
      get_fear_greed = Inr 70,
      get_macro_events = Inr [[(''title'', ''CPI''), (''impact'', ''High'')]]\<rparr>"

text \<open>
  The arithmetic of the sample runs is the exact one on finite operands (and NaN on the
  others, which the sample runs do not meet). It is not the arithmetic of the
  interpreter, which rounds; the two agree wherever the exact result is a float itself,
  and the sample runs use it only there: \<open>1000000000000 / 2000000000000\<close> is \<open>0.5\<close>,
  \<open>0.5 * 100\<close> is \<open>50\<close>, and the clock readings are whole numbers of seconds, whose
  differences are whole numbers again.
\<close>

definition exact_div :: "pyfloat \<Rightarrow> pyfloat \<Rightarrow> pyexc + pyfloat" where
  "exact_div x y =
     (case (x, y) of
        (Fin a, Fin b) \<Rightarrow>
          if b = 0 then Inl (PyExc ''ZeroDivisionError'' ''float division by zero'')
          else Inr (Fin (a / b))
      | _ \<Rightarrow> Inr NaN)"

definition exact_mul :: "pyfloat \<Rightarrow> pyfloat \<Rightarrow> pyfloat" where
  "exact_mul x y = (case (x, y) of (Fin a, Fin b) \<Rightarrow> Fin (a * b) | _ \<Rightarrow> NaN)"

definition sample_arith :: py_arith where
  "sample_arith = \<lparr>float_div = exact_div, float_mul = exact_mul, float_sub = (\<lambda>a b. a - b)\<rparr>"

text \<open>The snapshot \<open>gather_data\<close> builds in that world.\<close>

definition sample_snapshot :: MarketSnapshot where
  "sample_snapshot =
     \<lparr>eth_price = Fin 3600, market_cap = Fin 430000000000, volume = Fin 20000000000,
      rsi = NaN, macd = NaN, funding_rate = Fin 0.0001220703125, open_interest = Fin 12000,
      btc_dominance = Fin 50, fear_greed = 70,
      macro_events = [[(''title'', ''CPI''), (''impact'', ''High'')]]\<rparr>"

text \<open>The snapshots of the two signal scenarios of the spec (section 8).\<close>

definition long_scenario :: MarketSnapshot where
  "long_scenario =
     \<lparr>eth_price = Fin 3600, market_cap = Fin 0, volume = Fin 0, rsi = Fin 65, macd = Fin 1.2,
      funding_rate = Fin (- 0.001), open_interest = Fin 12000, btc_dominance = Fin 58,
      fear_greed = 70, macro_events = []\<rparr>"

definition short_scenario :: MarketSnapshot where
  "short_scenario =
     \<lparr>eth_price = Fin 3400, market_cap = Fin 0, volume = Fin 0, rsi = Fin 35, macd = Fin (- 0.8),
      funding_rate = Fin 0.002, open_interest = Fin 8000, btc_dominance = Fin 61,
      fear_greed = 30, macro_events = []\<rparr>"

section \<open>The decision engine: what it returns\<close>

lemma pf_lt_40_not_gt_60: "pf_lt x (Fin 40) \<Longrightarrow> \<not> pf_gt x (Fin 60)"
  by (cases x) (simp_all add: pf_gt_def)

lemma sell_excludes_buy: "sell s p \<Longrightarrow> \<not> buy s p"
  by (auto simp: buy_def sell_def dest: pf_lt_40_not_gt_60)

lemma known_baseline:
  "(case p of None \<Rightarrow> False | Some oi \<Rightarrow> P oi) \<longleftrightarrow> (\<exists>q. p = Some q \<and> P q)"
  by (cases p) simp_all

text \<open>
  C1. Whatever the snapshot and the previous open interest, \<open>evaluate\<close> returns
  \<open>"GO LONG"\<close> exactly when the seven conditions of the long rule hold, \<open>"SELL"\<close> exactly
  when the seven conditions of the short rule hold, and \<open>None\<close> otherwise; there is no
  fourth outcome. The previous open interest is known when it is \<open>Some q\<close>.
\<close>

theorem evaluate_three_outcomes:
  "(evaluate s p = Some ''GO LONG'' \<longleftrightarrow>
      pf_gt (rsi s) (Fin 60) \<and> pf_gt (macd s) (Fin 0) \<and> pf_gt (eth_price s) (Fin 3550)
      \<and> pf_lt (btc_dominance s) (Fin 59.5) \<and> pf_le (funding_rate s) (Fin 0)
      \<and> (\<exists>q. p = Some q \<and> pf_gt (open_interest s) q) \<and> fear_greed s > 60)
   \<and> (evaluate s p = Some ''SELL'' \<longleftrightarrow>
      pf_lt (rsi s) (Fin 40) \<and> pf_lt (macd s) (Fin 0) \<and> pf_lt (eth_price s) (Fin 3550)
      \<and> pf_gt (btc_dominance s) (Fin 59.5) \<and> pf_gt (funding_rate s) (Fin 0)
      \<and> (\<exists>q. p = Some q \<and> pf_lt (open_interest s) q) \<and> fear_greed s < 40)
   \<and> (evaluate s p = Some ''GO LONG'' \<or> evaluate s p = Some ''SELL'' \<or> evaluate s p = None)"
proof -
  have b: "buy s p \<longleftrightarrow>
      pf_gt (rsi s) (Fin 60) \<and> pf_gt (macd s) (Fin 0) \<and> pf_gt (eth_price s) (Fin 3550)
      \<and> pf_lt (btc_dominance s) (Fin 59.5) \<and> pf_le (funding_rate s) (Fin 0)
      \<and> (\<exists>q. p = Some q \<and> pf_gt (open_interest s) q) \<and> fear_greed s > 60"
    unfolding buy_def known_baseline ..
  have sl: "sell s p \<longleftrightarrow>
      pf_lt (rsi s) (Fin 40) \<and> pf_lt (macd s) (Fin 0) \<and> pf_lt (eth_price s) (Fin 3550)
      \<and> pf_gt (btc_dominance s) (Fin 59.5) \<and> pf_gt (funding_rate s) (Fin 0)
      \<and> (\<exists>q. p = Some q \<and> pf_lt (open_interest s) q) \<and> fear_greed s < 40"
    unfolding sell_def known_baseline ..
  have l: "evaluate s p = Some ''GO LONG'' \<longleftrightarrow> buy s p"
    by (simp add: evaluate_def)
  have r: "evaluate s p = Some ''SELL'' \<longleftrightarrow> sell s p"
    using sell_excludes_buy [of s p] by (auto simp: evaluate_def)
  have t: "evaluate s p = Some ''GO LONG'' \<or> evaluate s p = Some ''SELL'' \<or> evaluate s p = None"
    by (simp add: evaluate_def)
  from l b r sl t show ?thesis
    by (intro conjI) (erule (1) trans, erule (1) trans, assumption)
qed

text \<open>The two signal scenarios of the spec, through the theorem.\<close>

theorem evaluate_three_outcomes_witness:
  "evaluate long_scenario (Some (Fin 10000)) = Some ''GO LONG''
   \<and> evaluate short_scenario (Some (Fin 9000)) = Some ''SELL''"
proof -
  from evaluate_three_outcomes [of long_scenario "Some (Fin 10000)"]
  have "evaluate long_scenario (Some (Fin 10000)) = Some ''GO LONG''"
    by (simp add: long_scenario_def pf_gt_def)
  moreover from evaluate_three_outcomes [of short_scenario "Some (Fin 9000)"]
  have "evaluate short_scenario (Some (Fin 9000)) = Some ''SELL''"
    by (simp add: short_scenario_def pf_gt_def)
  ultimately show ?thesis ..
qed

text \<open>
  C3. When the previous open interest is unknown (\<open>None\<close>), \<open>evaluate\<close> returns \<open>None\<close>
  whatever the fields of the snapshot are.
\<close>

theorem evaluate_unknown_baseline: "evaluate s None = None"
  by (simp add: evaluate_def buy_def sell_def)

theorem evaluate_unknown_baseline_witness:
  "evaluate long_scenario None = None \<and> evaluate short_scenario None = None"
  using evaluate_unknown_baseline [of long_scenario] evaluate_unknown_baseline [of short_scenario]
  by (rule conjI)

text \<open>
  C7. The long rule and the short rule exclude each other: no snapshot and no previous
  open interest satisfy the seven conditions of \<open>buy\<close> and the seven of \<open>sell\<close> together.
\<close>

theorem buy_sell_exclusive: "\<not> (buy s p \<and> sell s p)"
  using sell_excludes_buy [of s p] by blast

text \<open>Each rule can hold by itself: the long scenario satisfies \<open>buy\<close>, and then not \<open>sell\<close>.\<close>

theorem buy_sell_exclusive_witness:
  "buy long_scenario (Some (Fin 10000)) \<and> \<not> sell long_scenario (Some (Fin 10000))
   \<and> sell short_scenario (Some (Fin 9000)) \<and> \<not> buy short_scenario (Some (Fin 9000))"
proof -
  have b: "buy long_scenario (Some (Fin 10000))"
    by (simp add: buy_def long_scenario_def pf_gt_def)
  have s: "sell short_scenario (Some (Fin 9000))"
    by (simp add: sell_def short_scenario_def pf_gt_def)
  from b buy_sell_exclusive [of long_scenario "Some (Fin 10000)"]
  have nb: "\<not> sell long_scenario (Some (Fin 10000))"
    by blast
  from s buy_sell_exclusive [of short_scenario "Some (Fin 9000)"]
  have ns: "\<not> buy short_scenario (Some (Fin 9000))"
    by blast
  from b nb s ns show ?thesis
    by (intro conjI)
qed

text \<open>
  C10. \<open>evaluate\<close> is defined on every snapshot, NaN fields included (it is a total
  function into the three outcomes: no comparison of floats raises), and when \<open>rsi\<close> or
  \<open>macd\<close> is NaN it returns \<open>None\<close>, since every comparison with NaN is false.
\<close>

theorem evaluate_nan: "rsi s = NaN \<or> macd s = NaN \<Longrightarrow> evaluate s p = None"
  by (auto simp: evaluate_def buy_def sell_def pf_gt_def)

theorem evaluate_nan_witness:
  "evaluate (long_scenario\<lparr>rsi := NaN\<rparr>) (Some (Fin 10000)) = None
   \<and> evaluate (short_scenario\<lparr>macd := NaN\<rparr>) (Some (Fin 9000)) = None"
proof -
  have "rsi (long_scenario\<lparr>rsi := NaN\<rparr>) = NaN \<or> macd (long_scenario\<lparr>rsi := NaN\<rparr>) = NaN"
    by simp
  then have a: "evaluate (long_scenario\<lparr>rsi := NaN\<rparr>) (Some (Fin 10000)) = None"
    by (rule evaluate_nan)
  have "rsi (short_scenario\<lparr>macd := NaN\<rparr>) = NaN \<or> macd (short_scenario\<lparr>macd := NaN\<rparr>) = NaN"
    by simp
  then have b: "evaluate (short_scenario\<lparr>macd := NaN\<rparr>) (Some (Fin 9000)) = None"
    by (rule evaluate_nan)
  from a b show ?thesis ..
qed

lemma run_evaluate_reads: "run_state (evaluate_reads p) s = (evaluate s p, s)"
  by (cases p)
    (simp_all add: evaluate_reads_def evaluate_def buy_def sell_def attr_def py_and_def
      State_Monad.bind_def State_Monad.return_def)

text \<open>
  C9. \<open>evaluate\<close> is deterministic and has no side effect: two evaluations in sequence on
  the same snapshot object and the same previous open interest return the same result,
  the one the function \<open>evaluate\<close> gives, and leave every field of the snapshot as it
  was.
\<close>

theorem evaluate_twice:
  "run_state (do { a \<leftarrow> evaluate_reads p; b \<leftarrow> evaluate_reads p; State_Monad.return (a, b) }) s
     = ((evaluate s p, evaluate s p), s)"
  by (simp add: State_Monad.bind_def State_Monad.return_def run_evaluate_reads)

theorem evaluate_twice_witness:
  "run_state (do { a \<leftarrow> evaluate_reads (Some (Fin 10000));
                   b \<leftarrow> evaluate_reads (Some (Fin 10000));
                   State_Monad.return (a, b) }) long_scenario
     = ((Some ''GO LONG'', Some ''GO LONG''), long_scenario)"
proof -
  have "evaluate long_scenario (Some (Fin 10000)) = Some ''GO LONG''"
    by (simp add: evaluate_def buy_def long_scenario_def pf_gt_def)
  with evaluate_twice [of "Some (Fin 10000)" long_scenario] show ?thesis
    by simp
qed

section \<open>The aggregator: failures of the sources\<close>

lemma gather_data_unfold:
  "gather_data ops env =
     and_then (and_then (and_then (and_then (and_then (and_then
       (fetch_eth_market env MarketSnapshot_init)
       (fetch_rsi_macd env)) (fetch_funding_rate env)) (fetch_open_interest env))
       (fetch_btc_dominance ops env)) (fetch_fear_greed env)) (fetch_macro_events env)"
  by (simp add: gather_data_def and_then_def)

lemma fetch_macro_events_total:
  "fetch_macro_events env snapshot =
     Inr (snapshot\<lparr>macro_events :=
            (case get_macro_events env of Inl exc \<Rightarrow> [] | Inr events \<Rightarrow> events)\<rparr>)"
  by (simp add: fetch_macro_events_def split: sum.splits)

lemma other_fetches_ignore_macro:
  "fetch_eth_market (env\<lparr>get_macro_events := v\<rparr>) = fetch_eth_market env"
  "fetch_rsi_macd (env\<lparr>get_macro_events := v\<rparr>) = fetch_rsi_macd env"
  "fetch_funding_rate (env\<lparr>get_macro_events := v\<rparr>) = fetch_funding_rate env"
  "fetch_open_interest (env\<lparr>get_macro_events := v\<rparr>) = fetch_open_interest env"
  "fetch_btc_dominance ops (env\<lparr>get_macro_events := v\<rparr>) = fetch_btc_dominance ops env"
  "fetch_fear_greed (env\<lparr>get_macro_events := v\<rparr>) = fetch_fear_greed env"
  by (simp_all add: fun_eq_iff fetch_eth_market_def fetch_rsi_macd_def fetch_funding_rate_def
      fetch_open_interest_def fetch_btc_dominance_def fetch_fear_greed_def cong: sum.case_cong)

lemma gather_sample: "gather_data sample_arith sample_sources = Inr sample_snapshot"
  by (simp add: gather_data_unfold and_then_def sample_sources_def fetch_eth_market_def
      fetch_rsi_macd_def fetch_funding_rate_def fetch_open_interest_def fetch_btc_dominance_def
      fetch_fear_greed_def fetch_macro_events_def iloc_last_def nan_series_def
      sample_arith_def exact_div_def exact_mul_def MarketSnapshot_init_def sample_snapshot_def)

lemma gather_eth_market_down:
  "gather_data ops (sample_sources\<lparr>get_eth_market := Inl exc\<rparr>) = Inl exc"
  by (simp add: gather_data_unfold and_then_def fetch_eth_market_def)

text \<open>
  C6. When the macro-calendar request fails, \<open>fetch_macro_events\<close> raises nothing and
  stores the empty list, and \<open>gather_data\<close> returns what it would have returned had the
  request succeeded (the same snapshot, or the same exception of another adapter),
  except that \<open>macro_events\<close> is empty.
\<close>

theorem macro_failure_isolated:
  "get_macro_events env = Inl exc \<Longrightarrow>
     fetch_macro_events env snapshot = Inr (snapshot\<lparr>macro_events := []\<rparr>)
     \<and> gather_data ops env =
         (case gather_data ops (env\<lparr>get_macro_events := Inr events\<rparr>) of
            Inl e \<Rightarrow> Inl e
          | Inr snap \<Rightarrow> Inr (snap\<lparr>macro_events := []\<rparr>))"
  by (simp add: gather_data_unfold other_fetches_ignore_macro fetch_macro_events_total
      and_then_def split: sum.splits)

theorem macro_failure_isolated_witness:
  "gather_data sample_arith
     (sample_sources\<lparr>get_macro_events := Inl (PyExc ''ConnectionError'' ''network unreachable'')\<rparr>)
   = Inr (sample_snapshot\<lparr>macro_events := []\<rparr>)"
proof -
  let ?down = "sample_sources\<lparr>get_macro_events := Inl (PyExc ''ConnectionError'' ''network unreachable'')\<rparr>"
  have h: "get_macro_events ?down = Inl (PyExc ''ConnectionError'' ''network unreachable'')"
    by simp
  have same: "?down\<lparr>get_macro_events := Inr [[(''title'', ''CPI''), (''impact'', ''High'')]]\<rparr>
      = sample_sources"
    by (simp add: sample_sources_def)
  from macro_failure_isolated
    [OF h, of MarketSnapshot_init sample_arith "[[(''title'', ''CPI''), (''impact'', ''High'')]]"]
  show ?thesis by (simp add: same gather_sample)
qed

text \<open>
  C4, as stated, fails. \<open>fetch_rsi_macd\<close> has no check of the length and the source has
  no InsufficientData error. On three closing prices, with indicators that are NaN where
  their window has not filled, it raises nothing and stores NaN in \<open>rsi\<close> and \<open>macd\<close>.
\<close>

theorem fetch_rsi_macd_short_series_counterexample:
  "get_klines sample_sources = Inr [Fin 100, Fin 101, Fin 102]
   \<and> length [Fin 100, Fin 101, Fin 102] < (26::nat)
   \<and> fetch_rsi_macd sample_sources MarketSnapshot_init
       = Inr (MarketSnapshot_init\<lparr>rsi := NaN, macd := NaN\<rparr>)"
  by (simp add: sample_sources_def fetch_rsi_macd_def iloc_last_def nan_series_def)

text \<open>
  C4, amended. On a closing-price sequence shorter than 26 \<open>fetch_rsi_macd\<close> raises no
  error of its own for the length. When the two indicator calls return non-empty
  series it stores their last entries as \<open>rsi\<close> and \<open>macd\<close>, whatever they are. When it
  fails, the exception is the one an indicator call raised, or the IndexError of
  reading the last entry of an empty series.
\<close>

theorem fetch_rsi_macd_short_series:
  "get_klines env = Inr closes \<Longrightarrow> length closes < 26 \<Longrightarrow>
     (rsi_indicator env closes 14 = Inr rsi_series \<and> rsi_series \<noteq> []
        \<and> macd_diff_indicator env closes 26 12 9 = Inr diff_series \<and> diff_series \<noteq> []
      \<longrightarrow> fetch_rsi_macd env snapshot
            = Inr (snapshot\<lparr>rsi := last rsi_series, macd := last diff_series\<rparr>))
     \<and> (fetch_rsi_macd env snapshot = Inl exc
      \<longrightarrow> rsi_indicator env closes 14 = Inl exc
          \<or> macd_diff_indicator env closes 26 12 9 = Inl exc
          \<or> exc_class exc = ''IndexError'')"
  by (auto simp: fetch_rsi_macd_def iloc_last_def split: sum.splits if_splits)

theorem fetch_rsi_macd_short_series_witness:
  "fetch_rsi_macd sample_sources MarketSnapshot_init
     = Inr (MarketSnapshot_init\<lparr>rsi := NaN, macd := NaN\<rparr>)
   \<and> fetch_rsi_macd (sample_sources\<lparr>rsi_indicator := (\<lambda>closes window. Inr [])\<rparr>) MarketSnapshot_init
     = Inl (PyExc ''IndexError'' ''single positional indexer is out-of-bounds'')"
proof -
  have k: "get_klines sample_sources = Inr [Fin 100, Fin 101, Fin 102]"
    by (simp add: sample_sources_def)
  have l: "length [Fin 100, Fin 101, Fin 102] < (26::nat)"
    by simp
  have r: "rsi_indicator sample_sources [Fin 100, Fin 101, Fin 102] 14 = Inr [NaN, NaN, NaN]"
    "macd_diff_indicator sample_sources [Fin 100, Fin 101, Fin 102] 26 12 9 = Inr [NaN, NaN, NaN]"
    by (simp_all add: sample_sources_def nan_series_def)
  from fetch_rsi_macd_short_series
    [OF k l, of "[NaN, NaN, NaN]" "[NaN, NaN, NaN]" MarketSnapshot_init] r
  have a: "fetch_rsi_macd sample_sources MarketSnapshot_init
      = Inr (MarketSnapshot_init\<lparr>rsi := NaN, macd := NaN\<rparr>)"
    by simp
  have b: "fetch_rsi_macd (sample_sources\<lparr>rsi_indicator := (\<lambda>closes window. Inr [])\<rparr>) MarketSnapshot_init
      = Inl (PyExc ''IndexError'' ''single positional indexer is out-of-bounds'')"
    by (simp add: sample_sources_def fetch_rsi_macd_def iloc_last_def)
  from a b show ?thesis ..
qed

section \<open>The monitor loop: a failed cycle\<close>

lemma main_loop_True_Cons:
  "main_loop ops True st (env # envs) =
     (snd (cycle_body ops env st) @ Sleep 300
        # fst (main_loop ops True (fst (cycle_body ops env st)) envs),
      snd (main_loop ops True (fst (cycle_body ops env st)) envs))"
  by (simp split: prod.splits)

lemma main_loop_forever: "snd (snd (main_loop ops True st envs)) = Looping"
  by (induction envs arbitrary: st) (simp_all add: main_loop_True_Cons del: main_loop.simps(2))

lemma cycle_body_error:
  "gather_data ops (sources env) = Inl exc \<Longrightarrow>
     cycle_body ops env st = (st, [Print (''Error: '' @ exc_str exc)])"
  by (simp add: cycle_body_def)

text \<open>
  C2. In every cycle of the loop in which \<open>gather_data\<close> raises, the loop catches the
  exception at the cycle boundary, prints the one line \<open>Error: ...\<close> and leaves
  \<open>last_oi\<close> (and \<open>last_message\<close>) exactly as they were. With \<open>run_forever\<close>, the mode in
  which there is a next cycle, the failure does not end the process: the loop sleeps its
  300 seconds and goes on with the next cycle from the unchanged state, and \<open>main\<close> does
  not return. (In a single run \<open>main\<close> returns after its one cycle, failed or not; the
  last conjunct records what it has printed then.)
\<close>

theorem failed_cycle_isolated:
  "gather_data ops (sources env) = Inl exc \<Longrightarrow>
     cycle_body ops env st = (st, [Print (''Error: '' @ exc_str exc)])
     \<and> main_loop ops True st (env # envs) =
         (case main_loop ops True st envs of
            (evs, st', status) \<Rightarrow>
              (Print (''Error: '' @ exc_str exc) # Sleep 300 # evs, st', status))
     \<and> snd (snd (main_loop ops True st (env # envs))) = Looping
     \<and> main_loop ops False st (env # envs) = ([Print (''Error: '' @ exc_str exc)], st, Returned)"
proof (intro conjI)
  assume "gather_data ops (sources env) = Inl exc"
  then show c: "cycle_body ops env st = (st, [Print (''Error: '' @ exc_str exc)])"
    by (rule cycle_body_error)
  from c show "main_loop ops True st (env # envs) =
         (case main_loop ops True st envs of
            (evs, st', status) \<Rightarrow>
              (Print (''Error: '' @ exc_str exc) # Sleep 300 # evs, st', status))"
    by (simp split: prod.splits)
  show "snd (snd (main_loop ops True st (env # envs))) = Looping"
    by (rule main_loop_forever)
  from c show "main_loop ops False st (env # envs)
      = ([Print (''Error: '' @ exc_str exc)], st, Returned)"
    by simp
qed

theorem failed_cycle_isolated_witness:
  "main sample_arith True
     [\<lparr>sources = sample_sources\<lparr>get_eth_market := Inl (PyExc ''ConnectionError'' ''timed out'')\<rparr>,
       now1 = 1700000000, now2 = 1700000000\<rparr>]
   = ([Print ''Error: timed out'', Sleep 300], \<lparr>last_oi = None, last_message = 0\<rparr>, Looping)"
  using failed_cycle_isolated [of sample_arith
      "\<lparr>sources = sample_sources\<lparr>get_eth_market := Inl (PyExc ''ConnectionError'' ''timed out'')\<rparr>,
        now1 = 1700000000, now2 = 1700000000\<rparr>"
      "PyExc ''ConnectionError'' ''timed out''" "\<lparr>last_oi = None, last_message = 0\<rparr>" "[]"]
  by (simp add: main_def gather_eth_market_down)

section \<open>The monitor loop: the heartbeat\<close>

lemma run_cycles_Cons:
  "run_cycles ops st (env # envs) =
     (fst (run_cycles ops (fst (cycle_body ops env st)) envs),
      (env, snd (cycle_body ops env st)) # snd (run_cycles ops (fst (cycle_body ops env st)) envs))"
  by (simp split: prod.splits)

text \<open>The loop prints what the history lists, with a sleep after each cycle.\<close>

lemma main_loop_history:
  "main_loop ops True st envs =
     (concat (map (\<lambda>(env, out). out @ [Sleep 300]) (snd (run_cycles ops st envs))),
      fst (run_cycles ops st envs), Looping)"
  by (induction envs arbitrary: st)
    (simp_all add: main_loop_True_Cons run_cycles_Cons del: main_loop.simps(2) run_cycles.simps(2))

lemma main_loop_append:
  "fst (main_loop ops True st (xs @ ys)) =
     fst (main_loop ops True st xs) @ fst (main_loop ops True (fst (run_cycles ops st xs)) ys)"
  by (induction xs arbitrary: st)
    (simp_all add: main_loop_True_Cons run_cycles_Cons del: main_loop.simps(2) run_cycles.simps(2))

text \<open>Each cycle stores the time of what it printed, and nothing else.\<close>

lemma cycle_body_stamp:
  "last_message (fst (cycle_body ops env st)) =
     (case stamp env (snd (cycle_body ops env st)) of None \<Rightarrow> last_message st | Some t \<Rightarrow> t)"
proof (cases "gather_data ops (sources env)")
  case (Inl exc)
  then show ?thesis
    by (simp add: cycle_body_def stamp_def)
next
  case (Inr snap)
  have "evaluate snap (last_oi st) = Some ''GO LONG'' \<or> evaluate snap (last_oi st) = Some ''SELL''
      \<or> evaluate snap (last_oi st) = None"
    by (simp add: evaluate_def)
  with Inr show ?thesis
    by (auto simp: cycle_body_def stamp_def truthy_def)
qed

lemma last_message_history:
  "last_message (fst (run_cycles ops st envs)) =
     last_output_time (last_message st) (snd (run_cycles ops st envs))"
proof (induction envs arbitrary: st)
  case Nil
  show ?case by simp
next
  case (Cons env envs)
  show ?case
    using Cons.IH [of "fst (cycle_body ops env st)"]
    by (simp add: run_cycles_Cons cycle_body_stamp del: run_cycles.simps(2))
qed

lemma cycle_body_no_signal:
  "gather_data ops (sources env) = Inr snap \<Longrightarrow> \<not> truthy (evaluate snap (last_oi st)) \<Longrightarrow>
     cycle_body ops env st =
       (if float_sub ops (now1 env) (last_message st) \<ge> 3600
        then (\<lparr>last_oi = Some (open_interest snap), last_message = now2 env\<rparr>,
              [Print ''I'm still checking''])
        else (\<lparr>last_oi = Some (open_interest snap), last_message = last_message st\<rparr>, []))"
  by (simp add: cycle_body_def)

text \<open>While the idle interval is not reached, a span without signal only sleeps.\<close>

lemma quiet_span:
  "no_signal_span ops (last_oi st) envs \<Longrightarrow>
   \<forall>env\<in>set envs. float_sub ops (now1 env) (last_message st) < 3600 \<Longrightarrow>
     fst (main_loop ops True st envs) = replicate (length envs) (Sleep 300)"
proof (induction envs arbitrary: st)
  case Nil
  then show ?case by simp
next
  case (Cons env envs)
  from Cons.prems(1) obtain snap where g: "gather_data ops (sources env) = Inr snap"
    and q: "\<not> truthy (evaluate snap (last_oi st))"
    and rest: "no_signal_span ops (Some (open_interest snap)) envs"
    by (auto split: sum.splits)
  from Cons.prems(2) have lt: "\<not> float_sub ops (now1 env) (last_message st) \<ge> 3600"
    by simp
  let ?st = "\<lparr>last_oi = Some (open_interest snap), last_message = last_message st\<rparr>"
  from g q lt have c: "cycle_body ops env st = (?st, [])"
    by (simp add: cycle_body_no_signal)
  from rest Cons.prems(2)
  have "fst (main_loop ops True ?st envs) = replicate (length envs) (Sleep 300)"
    by (intro Cons.IH) simp_all
  with c show ?case
    by (simp add: main_loop_True_Cons del: main_loop.simps(2))
qed

lemma heartbeat_trace_Suc:
  "heartbeat_trace (Suc k) (Suc n) = Sleep 300 # heartbeat_trace k n"
  "heartbeat_trace 0 (Suc n) = Print ''I'm still checking'' # Sleep 300 # replicate n (Sleep 300)"
proof -
  have u: "[0..<Suc n] = 0 # map Suc [0..<n]"
    by (simp add: upt_conv_Cons map_Suc_upt del: upt_Suc)
  then show "heartbeat_trace (Suc k) (Suc n) = Sleep 300 # heartbeat_trace k n"
    by (simp add: heartbeat_trace_def comp_def del: upt_Suc)
  have r: "concat (map (\<lambda>i. (if i = 0 then [Print ''I'm still checking''] else []) @ [Sleep 300])
             (map Suc xs))
      = replicate (length xs) (Sleep 300)" for xs
    by (induction xs) simp_all
  from u show "heartbeat_trace 0 (Suc n)
      = Print ''I'm still checking'' # Sleep 300 # replicate n (Sleep 300)"
    using r [of "[0..<n]"] by (simp add: heartbeat_trace_def del: upt_Suc)
qed

text \<open>
  A span without signal whose cycles are less than the idle interval apart: the
  heartbeat is printed in the first cycle whose computed difference to \<open>last_message\<close> is
  3600 or more, and in no other.
\<close>

lemma span_trace:
  "no_signal_span ops (last_oi st) envs \<Longrightarrow> within_idle ops envs \<Longrightarrow>
     fst (main_loop ops True st envs) =
       heartbeat_trace
         (length (takeWhile (\<lambda>env. float_sub ops (now1 env) (last_message st) < 3600) envs))
         (length envs)"
proof (induction envs arbitrary: st)
  case Nil
  then show ?case by (simp add: heartbeat_trace_def)
next
  case (Cons env envs)
  from Cons.prems(1) obtain snap where g: "gather_data ops (sources env) = Inr snap"
    and q: "\<not> truthy (evaluate snap (last_oi st))"
    and rest: "no_signal_span ops (Some (open_interest snap)) envs"
    by (auto split: sum.splits)
  from Cons.prems(2) have apart: "\<forall>e\<in>set envs. float_sub ops (now1 e) (now2 env) < 3600"
    and idle: "within_idle ops envs"
    by (simp_all add: list_all_iff)
  show ?case
  proof (cases "float_sub ops (now1 env) (last_message st) \<ge> 3600")
    case True
    let ?st = "\<lparr>last_oi = Some (open_interest snap), last_message = now2 env\<rparr>"
    from g q True have c: "cycle_body ops env st = (?st, [Print ''I'm still checking''])"
      by (simp add: cycle_body_no_signal)
    from rest apart have "fst (main_loop ops True ?st envs) = replicate (length envs) (Sleep 300)"
      by (intro quiet_span) simp_all
    with c True show ?thesis
      by (simp add: heartbeat_trace_Suc main_loop_True_Cons del: main_loop.simps(2))
  next
    case False
    let ?st = "\<lparr>last_oi = Some (open_interest snap), last_message = last_message st\<rparr>"
    from g q False have c: "cycle_body ops env st = (?st, [])"
      by (simp add: cycle_body_no_signal)
    from rest idle
    have "fst (main_loop ops True ?st envs) =
        heartbeat_trace
          (length (takeWhile (\<lambda>env. float_sub ops (now1 env) (last_message ?st) < 3600) envs))
          (length envs)"
      by (intro Cons.IH) simp_all
    with c False show ?thesis
      by (simp add: heartbeat_trace_Suc main_loop_True_Cons del: main_loop.simps(2))
  qed
qed

lemma count_replicate_sleep: "count_list (replicate n (Sleep 300)) (Print line) = 0"
  by (induction n) simp_all

lemma count_heartbeat_trace:
  "count_list (heartbeat_trace k n) (Print ''I'm still checking'') \<le> 1"
proof (induction n arbitrary: k)
  case 0
  then show ?case by (simp add: heartbeat_trace_def)
next
  case (Suc n)
  show ?case
  proof (cases k)
    case 0
    then show ?thesis by (simp add: heartbeat_trace_Suc count_replicate_sleep)
  next
    case (Suc j)
    with Suc.IH [of j] show ?thesis by (simp add: heartbeat_trace_Suc)
  qed
qed

lemma sample_no_signal: "evaluate sample_snapshot p = None"
  by (simp add: evaluate_def buy_def sell_def pf_gt_def sample_snapshot_def)

lemma sample_open_interest: "open_interest sample_snapshot = Fin 12000"
  by (simp add: sample_snapshot_def)

lemma sample_float_sub: "float_sub sample_arith a b = a - b"
  by (simp add: sample_arith_def)

text \<open>
  C5, as stated, fails at the boundary. The source tests
  \<open>time.time() - last_message >= 3600\<close>: a cycle without signal that reads the clock
  exactly 3600 seconds after \<open>last_message\<close> prints the heartbeat, although no more than
  the idle interval has passed. (Both readings are whole numbers of seconds, whose float
  difference is exact.)
\<close>

theorem heartbeat_at_idle_interval_counterexample:
  "\<not> (float_sub sample_arith
          (now1 \<lparr>sources = sample_sources, now1 = 1700003600, now2 = 1700003600\<rparr>)
          (last_message \<lparr>last_oi = Some (Fin 12000), last_message = 1700000000\<rparr>) > 3600)
   \<and> snd (cycle_body sample_arith
            \<lparr>sources = sample_sources, now1 = 1700003600, now2 = 1700003600\<rparr>
            \<lparr>last_oi = Some (Fin 12000), last_message = 1700000000\<rparr>)
       = [Print ''I'm still checking'']"
  by (simp add: cycle_body_def gather_sample sample_no_signal truthy_def sample_float_sub)

text \<open>
  C5, amended. In every run of the loop from its start, \<open>last_message\<close> is the time of
  the last signal or heartbeat the run has printed (0 when it has printed none; an error
  diagnostic does not count). A cycle that gathers its snapshot and produces no signal
  prints the heartbeat if and only if the difference between its clock reading and that
  time, as the interpreter computes it, is at least 3600, and printing it stores a new
  clock reading. Consequently, when the run continues with a span of such cycles that are
  less than the idle interval apart (each clock reading less than 3600, as computed,
  after the second reading of every earlier cycle of the span), the span prints at most
  one heartbeat: in its first cycle whose computed difference to that time is at least
  3600, and in no other.
\<close>

theorem heartbeat_throttle:
  "run_cycles ops \<lparr>last_oi = None, last_message = 0\<rparr> before = (st, hist) \<Longrightarrow>
     fst (main ops True before) = concat (map (\<lambda>(env, out). out @ [Sleep 300]) hist)
     \<and> last_message st = last_output_time 0 hist
     \<and> (gather_data ops (sources env) = Inr snap \<and> \<not> truthy (evaluate snap (last_oi st)) \<longrightarrow>
          snd (cycle_body ops env st) =
            (if float_sub ops (now1 env) (last_output_time 0 hist) \<ge> 3600
             then [Print ''I'm still checking''] else [])
          \<and> last_message (fst (cycle_body ops env st)) =
            (if float_sub ops (now1 env) (last_output_time 0 hist) \<ge> 3600
             then now2 env else last_output_time 0 hist))
     \<and> (no_signal_span ops (last_oi st) quiet \<and> within_idle ops quiet \<longrightarrow>
          fst (main ops True (before @ quiet)) =
            fst (main ops True before)
            @ heartbeat_trace
                (length (takeWhile
                   (\<lambda>env. float_sub ops (now1 env) (last_output_time 0 hist) < 3600) quiet))
                (length quiet)
          \<and> count_list
               (heartbeat_trace
                  (length (takeWhile
                     (\<lambda>env. float_sub ops (now1 env) (last_output_time 0 hist) < 3600) quiet))
                  (length quiet))
               (Print ''I'm still checking'') \<le> 1)"
proof -
  assume r: "run_cycles ops \<lparr>last_oi = None, last_message = 0\<rparr> before = (st, hist)"
  let ?init = "\<lparr>last_oi = None, last_message = 0\<rparr>"
  from r have st: "fst (run_cycles ops ?init before) = st"
    and hist: "snd (run_cycles ops ?init before) = hist"
    by simp_all
  have printed: "fst (main ops True before) = concat (map (\<lambda>(env, out). out @ [Sleep 300]) hist)"
    by (simp add: main_def main_loop_history hist)
  from last_message_history [of ops ?init before]
  have lm: "last_message st = last_output_time 0 hist"
    by (simp add: st hist)
  have one: "snd (cycle_body ops env st) =
            (if float_sub ops (now1 env) (last_output_time 0 hist) \<ge> 3600
             then [Print ''I'm still checking''] else [])
          \<and> last_message (fst (cycle_body ops env st)) =
            (if float_sub ops (now1 env) (last_output_time 0 hist) \<ge> 3600
             then now2 env else last_output_time 0 hist)"
    if "gather_data ops (sources env) = Inr snap \<and> \<not> truthy (evaluate snap (last_oi st))"
    using that by (simp add: cycle_body_no_signal lm)
  have more: "fst (main ops True (before @ quiet)) =
            fst (main ops True before)
            @ heartbeat_trace
                (length (takeWhile
                   (\<lambda>env. float_sub ops (now1 env) (last_output_time 0 hist) < 3600) quiet))
                (length quiet)"
    if "no_signal_span ops (last_oi st) quiet \<and> within_idle ops quiet"
    using that span_trace [of ops st quiet]
    by (simp add: main_def main_loop_append st lm)
  from printed lm one more count_heartbeat_trace show ?thesis
    by blast
qed

text \<open>
  A run of five cycles: the first prints a heartbeat (the clock is far past 0), the next
  two are silent, the fourth is 3600 seconds after the first heartbeat and prints the
  second, the fifth is silent.
\<close>

theorem heartbeat_throttle_witness:
  "fst (main sample_arith True
     [\<lparr>sources = sample_sources, now1 = 1700000000, now2 = 1700000001\<rparr>,
      \<lparr>sources = sample_sources, now1 = 1700003000, now2 = 1700003000\<rparr>,
      \<lparr>sources = sample_sources, now1 = 1700003300, now2 = 1700003300\<rparr>,
      \<lparr>sources = sample_sources, now1 = 1700003601, now2 = 1700003602\<rparr>,
      \<lparr>sources = sample_sources, now1 = 1700003900, now2 = 1700003900\<rparr>])
   = [Print ''I'm still checking'', Sleep 300,
      Sleep 300, Sleep 300, Print ''I'm still checking'', Sleep 300, Sleep 300]
   \<and> cycle_body sample_arith \<lparr>sources = sample_sources, now1 = 1700003601, now2 = 1700003602\<rparr>
        \<lparr>last_oi = Some (Fin 12000), last_message = 1700000001\<rparr>
      = (\<lparr>last_oi = Some (Fin 12000), last_message = 1700003602\<rparr>, [Print ''I'm still checking''])"
proof -
  let ?e0 = "\<lparr>sources = sample_sources, now1 = 1700000000, now2 = 1700000001\<rparr>"
  let ?st = "\<lparr>last_oi = Some (Fin 12000), last_message = 1700000001\<rparr>"
  let ?hist = "[(?e0, [Print ''I'm still checking''])]"
  let ?quiet = "[\<lparr>sources = sample_sources, now1 = 1700003000, now2 = 1700003000\<rparr>,
      \<lparr>sources = sample_sources, now1 = 1700003300, now2 = 1700003300\<rparr>,
      \<lparr>sources = sample_sources, now1 = 1700003601, now2 = 1700003602\<rparr>,
      \<lparr>sources = sample_sources, now1 = 1700003900, now2 = 1700003900\<rparr>]"
  let ?env = "\<lparr>sources = sample_sources, now1 = 1700003601, now2 = 1700003602\<rparr>"
  have r: "run_cycles sample_arith \<lparr>last_oi = None, last_message = 0\<rparr> [?e0] = (?st, ?hist)"
    by (simp add: cycle_body_def gather_sample sample_no_signal sample_open_interest truthy_def
        sample_float_sub)
  have t: "last_output_time 0 ?hist = 1700000001"
    by (simp add: stamp_def)
  have h: "no_signal_span sample_arith (last_oi ?st) ?quiet \<and> within_idle sample_arith ?quiet"
    by (simp add: gather_sample sample_no_signal sample_open_interest truthy_def sample_float_sub)
  have g: "gather_data sample_arith (sources ?env) = Inr sample_snapshot
      \<and> \<not> truthy (evaluate sample_snapshot (last_oi ?st))"
    by (simp add: gather_sample sample_no_signal truthy_def)
  have u: "[0..<4] = [0, 1, 2, 3]"
    by (simp add: upt_rec)
  note inst = heartbeat_throttle [OF r, of ?env sample_snapshot ?quiet]
  from inst h have a: "fst (main sample_arith True ([?e0] @ ?quiet))
      = [Print ''I'm still checking'', Sleep 300,
         Sleep 300, Sleep 300, Print ''I'm still checking'', Sleep 300, Sleep 300]"
    by (simp add: t sample_float_sub heartbeat_trace_def u)
  from inst g have "snd (cycle_body sample_arith ?env ?st) = [Print ''I'm still checking'']
      \<and> last_message (fst (cycle_body sample_arith ?env ?st)) = 1700003602"
    by (simp add: t sample_float_sub)
  moreover have "last_oi (fst (cycle_body sample_arith ?env ?st)) = Some (Fin 12000)"
    by (simp add: cycle_body_def gather_sample sample_no_signal sample_open_interest truthy_def)
  ultimately have b: "cycle_body sample_arith ?env ?st
      = (\<lparr>last_oi = Some (Fin 12000), last_message = 1700003602\<rparr>, [Print ''I'm still checking''])"
    by (cases "cycle_body sample_arith ?env ?st") (auto intro: loop_state.equality)
  from a b show ?thesis by simp
qed

section \<open>The relative-strength index: its range\<close>

lemma wilder_nonneg:
  "0 < n \<Longrightarrow> 0 \<le> avg \<Longrightarrow> \<forall>x\<in>set xs. 0 \<le> x \<Longrightarrow> 0 \<le> wilder n avg xs"
proof (induction xs arbitrary: avg)
  case Nil
  then show ?case by simp
next
  case (Cons x xs)
  from Cons.prems have "1 \<le> real n"
    by simp
  with Cons.prems have "0 \<le> (avg * (real n - 1) + x) / real n"
    by (simp add: divide_nonneg_pos)
  with Cons show ?case by simp
qed

lemma wilder_zero: "0 < n \<Longrightarrow> \<forall>x\<in>set xs. x = 0 \<Longrightarrow> wilder n 0 xs = 0"
  by (induction xs) simp_all

lemma wilder_pos:
  "0 < n \<Longrightarrow> 0 \<le> avg \<Longrightarrow> xs \<noteq> [] \<Longrightarrow> \<forall>x\<in>set xs. 0 < x \<Longrightarrow> 0 < wilder n avg xs"
proof (induction xs arbitrary: avg)
  case Nil
  then show ?case by simp
next
  case (Cons x xs)
  from Cons.prems have n: "1 \<le> real n"
    by simp
  from Cons.prems have x: "0 < x"
    by simp
  have "0 \<le> avg * (real n - 1)"
    using Cons.prems n by simp
  with x have "0 < avg * (real n - 1) + x"
    by linarith
  with n have step: "0 < (avg * (real n - 1) + x) / real n"
    by simp
  show ?case
  proof (cases xs)
    case Nil
    with step show ?thesis by simp
  next
    case (Cons y ys)
    with Cons.IH [of "(avg * (real n - 1) + x) / real n"] step Cons.prems show ?thesis
      by simp
  qed
qed

lemma moves_increasing: "sorted_wrt (<) closes \<Longrightarrow> \<forall>d\<in>set (moves closes). 0 < d"
  by (induction closes rule: induct_list012) (auto simp: moves_def)

lemma moves_decreasing: "sorted_wrt (>) closes \<Longrightarrow> \<forall>d\<in>set (moves closes). d < 0"
  by (induction closes rule: induct_list012) (auto simp: moves_def)

lemma length_moves: "length (moves closes) = length closes - 1"
  by (simp add: moves_def)

lemma rsi_bounds: "0 < n \<Longrightarrow> 0 \<le> rsi_last n closes \<and> rsi_last n closes \<le> 100"
proof -
  assume n: "0 < n"
  define u where "u = wilder n 0 (map up_move (moves closes))"
  define d where "d = wilder n 0 (map down_move (moves closes))"
  have u: "0 \<le> u"
    unfolding u_def using n by (intro wilder_nonneg) (auto simp: up_move_def)
  have d: "0 \<le> d"
    unfolding d_def using n by (intro wilder_nonneg) (auto simp: down_move_def)
  have r: "rsi_last n closes = (if d = 0 then 100 else 100 - 100 / (1 + u / d))"
    by (simp add: rsi_last_def Let_def u_def d_def)
  show ?thesis
  proof (cases "d = 0")
    case True
    with r show ?thesis by simp
  next
    case False
    with d have "0 < d"
      by simp
    with u have "0 \<le> u / d"
      by simp
    then have one: "1 \<le> 1 + u / d"
      by simp
    then have "100 / (1 + u / d) \<le> 100"
      by (simp add: divide_le_eq)
    moreover from one have "0 \<le> 100 / (1 + u / d)"
      by simp
    ultimately show ?thesis
      using r False by simp
  qed
qed

lemma rsi_increasing:
  assumes "0 < n" and "sorted_wrt (<) closes"
  shows "rsi_last n closes = 100"
proof -
  from moves_increasing [OF assms(2)] have "\<forall>x\<in>set (map down_move (moves closes)). x = 0"
    by (auto simp: down_move_def)
  with assms(1) have "wilder n 0 (map down_move (moves closes)) = 0"
    by (rule wilder_zero)
  then show ?thesis
    by (simp add: rsi_last_def)
qed

lemma rsi_decreasing:
  assumes "0 < n" and "2 \<le> length closes" and "sorted_wrt (>) closes"
  shows "rsi_last n closes = 0"
proof -
  from moves_decreasing [OF assms(3)] have neg: "\<forall>d\<in>set (moves closes). d < 0" .
  then have "\<forall>x\<in>set (map up_move (moves closes)). x = 0"
    by (auto simp: up_move_def)
  with assms(1) have u: "wilder n 0 (map up_move (moves closes)) = 0"
    by (rule wilder_zero)
  from neg have pos: "\<forall>x\<in>set (map down_move (moves closes)). 0 < x"
    by (auto simp: down_move_def)
  from assms(2) have "map down_move (moves closes) \<noteq> []"
    using length_moves [of closes] by (cases "moves closes") auto
  with assms(1) pos have "0 < wilder n 0 (map down_move (moves closes))"
    by (intro wilder_pos) auto
  with u show ?thesis
    by (simp add: rsi_last_def)
qed

text \<open>
  C8. For every sequence of at least 26 closing prices the RSI(14) at the last position
  lies between 0 and 100; it is 100 when the prices are strictly increasing and 0 when
  they are strictly decreasing.
\<close>

theorem rsi_14_range:
  "26 \<le> length closes \<Longrightarrow>
     0 \<le> rsi_last 14 closes \<and> rsi_last 14 closes \<le> 100
     \<and> (sorted_wrt (<) closes \<longrightarrow> rsi_last 14 closes = 100)
     \<and> (sorted_wrt (>) closes \<longrightarrow> rsi_last 14 closes = 0)"
  using rsi_bounds [of 14 closes] rsi_increasing [of 14 closes] rsi_decreasing [of 14 closes]
  by simp

text \<open>The prices 1, 2, ..., 26 and the same in reverse.\<close>

theorem rsi_14_range_witness:
  "rsi_last 14 (map real [1..<27]) = 100
   \<and> rsi_last 14 (map real (rev [1..<27])) = 0
   \<and> 0 \<le> rsi_last 14 (map real [1..<27])
   \<and> rsi_last 14 (map real (rev [1..<27])) \<le> 100"
proof -
  have i: "sorted_wrt (<) (map real [1..<27])"
    by (simp add: sorted_wrt_map)
  have d: "sorted_wrt (>) (map real (rev [1..<27]))"
    by (simp add: sorted_wrt_map sorted_wrt_rev)
  have l: "26 \<le> length (map real [1..<27])" "26 \<le> length (map real (rev [1..<27]))"
    by simp_all
  from rsi_14_range [OF l(1)] rsi_14_range [OF l(2)] i d show ?thesis
    by simp
qed

end
